theory Spec2Isabelle
  imports Complex_Main "HOL-Library.Sublist"
begin

section \<open>Python values and errors\<close>

text \<open>
  Every exception the two modules can raise is a value.  \<open>AttributeError t a\<close> reads
  "an object of type \<open>t\<close> has no attribute \<open>a\<close>"; \<open>SystemExit c\<close> is what
  \<^verbatim>\<open>sys.exit(c)\<close> raises.  \<open>NaNInput\<close> marks the one place where the embedding
  stops: its arrays hold real numbers, so a missing value that would reach NumPy as NaN
  ends the run of the model there.
\<close>

datatype error =
    AttributeError string string
  | ValueError string
  | KeyError string
  | NameError string
  | TypeError string
  | IndexError string
  | FileNotFoundError string
  | NotFittedError string
  | SystemExit int
  | NaNInput string

type_synonym 'a result = "error + 'a"

type_synonym matrix = "real list list"

text \<open>
  The Python values the two modules hand around.  An object of a scikit-learn
  transformer is known by its address (see the store below).  An attribute name is one
  of the names the program gives to its data: the fields of its four named tuples and
  \<open>power\<close>.  No tuple, string, number, array or \<open>None\<close> has an attribute of one of
  these names, so \<open>py_getattr\<close> is exact on them.
\<close>

type_synonym addr = nat

datatype attr =
  A_rss | A_rss_scaled | A_rss_scaler | A_labels | A_coords | A_coords_scaled | A_coords_scaler
  | A_power

fun attr_name :: "attr \<Rightarrow> string" where
  "attr_name A_rss = ''rss''"
| "attr_name A_rss_scaled = ''rss_scaled''"
| "attr_name A_rss_scaler = ''rss_scaler''"
| "attr_name A_labels = ''labels''"
| "attr_name A_coords = ''coords''"
| "attr_name A_coords_scaled = ''coords_scaled''"
| "attr_name A_coords_scaler = ''coords_scaler''"
| "attr_name A_power = ''power''"

datatype pyval =
    PyNone
  | PyInt int
  | PyFloat real
  | PyStr string
  | PyTuple "pyval list"
  | PyNamedTuple string "(attr \<times> pyval) list"
  | PyArray matrix
  | PyVector "real list"
  | PyScaler addr

fun type_name :: "pyval \<Rightarrow> string" where
  "type_name PyNone = ''NoneType''"
| "type_name (PyInt _) = ''int''"
| "type_name (PyFloat _) = ''float''"
| "type_name (PyStr _) = ''str''"
| "type_name (PyTuple _) = ''tuple''"
| "type_name (PyNamedTuple tn _) = tn"
| "type_name (PyArray _) = ''numpy.ndarray''"
| "type_name (PyVector _) = ''numpy.ndarray''"
| "type_name (PyScaler _) = ''sklearn transformer''"

fun py_getattr :: "pyval \<Rightarrow> attr \<Rightarrow> pyval result" where
  "py_getattr (PyNamedTuple tn fs) a =
     (case map_of fs a of Some v \<Rightarrow> Inr v | None \<Rightarrow> Inl (AttributeError tn (attr_name a)))"
| "py_getattr v a = Inl (AttributeError (type_name v) (attr_name a))"

text \<open>Sequencing: the first exception ends the computation.\<close>

definition bind :: "'a result \<Rightarrow> ('a \<Rightarrow> 'b result) \<Rightarrow> 'b result" where
  "bind m f = (case m of Inl e \<Rightarrow> Inl e | Inr x \<Rightarrow> f x)"

section \<open>The scikit-learn preprocessors used by the Loader\<close>

text \<open>
  The Loader instantiates, by name, one of three scikit-learn transformers.  They are
  library objects; what follows are their documented formulas over the reals (floating
  point rounding is not modelled).  A \<open>StandardScaler\<close> holds, once fitted, the column
  means and the column scales (population standard deviation, a zero replaced by one); a
  \<open>MinMaxScaler\<close> holds \<open>min_\<close> and \<open>scale_\<close> for the feature range \<open>(0, 1)\<close>; a
  \<open>Normalizer\<close> is stateless, divides every row by its Euclidean norm, and has no
  \<^verbatim>\<open>inverse_transform\<close> method.
\<close>

datatype scaler =
    StandardScaler "(real list \<times> real list) option"
  | MinMaxScaler "(real list \<times> real list) option"
  | Normalizer

definition n_rows :: "matrix \<Rightarrow> nat" where
  "n_rows X = length X"

definition n_cols :: "matrix \<Rightarrow> nat" where
  "n_cols X = (case X of [] \<Rightarrow> 0 | r # _ \<Rightarrow> length r)"

definition rectangular :: "matrix \<Rightarrow> bool" where
  "rectangular X = list_all (\<lambda>r. length r = n_cols X) X"

definition column :: "matrix \<Rightarrow> nat \<Rightarrow> real list" where
  "column X j = map (\<lambda>r. r ! j) X"

definition columns_of :: "matrix \<Rightarrow> real list list" where
  "columns_of X = map (column X) [0..<n_cols X]"

definition mean :: "real list \<Rightarrow> real" where
  "mean xs = sum_list xs / real (length xs)"

definition variance :: "real list \<Rightarrow> real" where
  "variance xs = sum_list (map (\<lambda>x. (x - mean xs)\<^sup>2) xs) / real (length xs)"

definition handle_zeros_in_scale :: "real \<Rightarrow> real" where
  "handle_zeros_in_scale s = (if s = 0 then 1 else s)"

fun list_min :: "real list \<Rightarrow> real" where
  "list_min [] = 0"
| "list_min (x # xs) = fold min xs x"

fun list_max :: "real list \<Rightarrow> real" where
  "list_max [] = 0"
| "list_max (x # xs) = fold max xs x"

definition l2_norm :: "real list \<Rightarrow> real" where
  "l2_norm r = sqrt (sum_list (map (\<lambda>x. x\<^sup>2) r))"

text \<open>
  \<^verbatim>\<open>check_array\<close>: a two-dimensional array with at least one sample and at least one
  feature, else \<open>ValueError\<close>.
\<close>

definition check_array :: "matrix \<Rightarrow> unit result" where
  "check_array X =
     (if \<not> rectangular X then Inl (ValueError ''inhomogeneous shape'')
      else if n_rows X = 0 then Inl (ValueError ''Found array with 0 sample(s)'')
      else if n_cols X = 0 then Inl (ValueError ''Found array with 0 feature(s)'')
      else Inr ())"

fun fit :: "scaler \<Rightarrow> matrix \<Rightarrow> scaler result" where
  "fit (StandardScaler _) X =
     (case check_array X of
        Inl e \<Rightarrow> Inl e
      | Inr _ \<Rightarrow>
          Inr (StandardScaler (Some
            (map mean (columns_of X),
             map (\<lambda>c. handle_zeros_in_scale (sqrt (variance c))) (columns_of X)))))"
| "fit (MinMaxScaler _) X =
     (case check_array X of
        Inl e \<Rightarrow> Inl e
      | Inr _ \<Rightarrow>
          (let scale = map (\<lambda>c. 1 / handle_zeros_in_scale (list_max c - list_min c))
                         (columns_of X);
               mn = map (\<lambda>(c, s). 0 - list_min c * s) (zip (columns_of X) scale)
           in Inr (MinMaxScaler (Some (mn, scale)))))"
| "fit Normalizer X =
     (case check_array X of Inl e \<Rightarrow> Inl e | Inr _ \<Rightarrow> Inr Normalizer)"

fun transform :: "scaler \<Rightarrow> matrix \<Rightarrow> matrix result" where
  "transform (StandardScaler None) X = Inl (NotFittedError ''StandardScaler'')"
| "transform (StandardScaler (Some (mu, sc))) X =
     (case check_array X of
        Inl e \<Rightarrow> Inl e
      | Inr _ \<Rightarrow>
          if n_cols X \<noteq> length mu then Inl (ValueError ''n_features'')
          else Inr (map (\<lambda>r. map (\<lambda>(x, m, s). (x - m) / s) (zip r (zip mu sc))) X))"
| "transform (MinMaxScaler None) X = Inl (NotFittedError ''MinMaxScaler'')"
| "transform (MinMaxScaler (Some (mn, sc))) X =
     (case check_array X of
        Inl e \<Rightarrow> Inl e
      | Inr _ \<Rightarrow>
          if n_cols X \<noteq> length mn then Inl (ValueError ''n_features'')
          else Inr (map (\<lambda>r. map (\<lambda>(x, m, s). x * s + m) (zip r (zip mn sc))) X))"
| "transform Normalizer X =
     (case check_array X of
        Inl e \<Rightarrow> Inl e
      | Inr _ \<Rightarrow> Inr (map (\<lambda>r. map (\<lambda>x. x / handle_zeros_in_scale (l2_norm r)) r) X))"

text \<open>
  \<^verbatim>\<open>transform\<close> checks the number of features against the fit.
  \<^verbatim>\<open>inverse_transform\<close> does not: it leaves the match to NumPy's broadcasting, which
  accepts parameters of the array's width or of width one.
\<close>

definition broadcast :: "nat \<Rightarrow> 'a list \<Rightarrow> 'a list result" where
  "broadcast k ps =
     (if length ps = k then Inr ps
      else if length ps = 1 then Inr (replicate k (hd ps))
      else Inl (ValueError ''operands could not be broadcast together''))"

fun inverse_transform :: "scaler \<Rightarrow> matrix \<Rightarrow> matrix result" where
  "inverse_transform (StandardScaler None) X = Inl (NotFittedError ''StandardScaler'')"
| "inverse_transform (StandardScaler (Some (mu, sc))) X =
     (case check_array X of
        Inl e \<Rightarrow> Inl e
      | Inr _ \<Rightarrow>
          bind (broadcast (n_cols X) (zip mu sc))
            (\<lambda>ps. Inr (map (\<lambda>r. map (\<lambda>(x, m, s). x * s + m) (zip r ps)) X)))"
| "inverse_transform (MinMaxScaler None) X = Inl (NotFittedError ''MinMaxScaler'')"
| "inverse_transform (MinMaxScaler (Some (mn, sc))) X =
     (case check_array X of
        Inl e \<Rightarrow> Inl e
      | Inr _ \<Rightarrow>
          bind (broadcast (n_cols X) (zip mn sc))
            (\<lambda>ps. Inr (map (\<lambda>r. map (\<lambda>(x, m, s). (x - m) / s) (zip r ps)) X)))"
| "inverse_transform Normalizer X = Inl (AttributeError ''Normalizer'' ''inverse_transform'')"

text \<open>\<^verbatim>\<open>fit_transform\<close> fits the object, then transforms with the new parameters.\<close>

definition fit_transform :: "scaler \<Rightarrow> matrix \<Rightarrow> (scaler \<times> matrix) result" where
  "fit_transform s X =
     (case fit s X of
        Inl e \<Rightarrow> Inl e
      | Inr s' \<Rightarrow> (case transform s' X of Inl e \<Rightarrow> Inl e | Inr Y \<Rightarrow> Inr (s', Y)))"

text \<open>
  The \<^verbatim>\<open>if/elif/else\<close> chain of \<^verbatim>\<open>Loader.__init__\<close>: the two fresh transformer
  objects for a supported name (\<open>rssi_scaler\<close>, \<open>coords_preprocessing\<close>), \<open>None\<close> for the
  \<^verbatim>\<open>else\<close> branch.
\<close>

definition select_preprocessor :: "string \<Rightarrow> (scaler \<times> scaler) option" where
  "select_preprocessor preprocessor =
     (if preprocessor = ''standard_scaler'' then Some (StandardScaler None, StandardScaler None)
      else if preprocessor = ''min_max_scaler'' then Some (MinMaxScaler None, MinMaxScaler None)
      else if preprocessor = ''normalization'' then Some (Normalizer, Normalizer)
      else None)"

section \<open>Data frames\<close>

text \<open>
  A data frame has named columns and rows that carry their index label; a cell is a
  number or missing (\<open>None\<close>, pandas' NaN).  \<^verbatim>\<open>pd.read_csv(f, header=0)\<close> labels
  the rows \<open>0, 1, 2, \<dots>\<close>.
\<close>

type_synonym cell = "real option"

record csv_table =
  header :: "string list"
  body :: "cell list list"

record dataframe =
  df_columns :: "string list"
  df_rows :: "(nat \<times> cell list) list"

definition read_csv :: "csv_table \<Rightarrow> dataframe" where
  "read_csv t = \<lparr>df_columns = header t, df_rows = zip [0..<length (body t)] (body t)\<rparr>"

fun col_pos :: "string list \<Rightarrow> string \<Rightarrow> nat option" where
  "col_pos [] c = None"
| "col_pos (x # xs) c = (if x = c then Some 0 else map_option Suc (col_pos xs c))"

fun traverse :: "('a \<Rightarrow> 'b result) \<Rightarrow> 'a list \<Rightarrow> 'b list result" where
  "traverse f [] = Inr []"
| "traverse f (x # xs) = bind (f x) (\<lambda>y. bind (traverse f xs) (\<lambda>ys. Inr (y # ys)))"

text \<open>\<^verbatim>\<open>df[c]\<close>: the cells of one column, \<open>KeyError\<close> when there is no such column.\<close>

definition getitem :: "dataframe \<Rightarrow> string \<Rightarrow> cell list result" where
  "getitem df c =
     (case col_pos (df_columns df) c of
        None \<Rightarrow> Inl (KeyError c)
      | Some j \<Rightarrow> Inr (map (\<lambda>(i, r). r ! j) (df_rows df)))"

text \<open>\<^verbatim>\<open>df[df[c] == v]\<close>: the rows whose cell in column \<open>c\<close> equals \<open>v\<close>.\<close>

definition filter_eq :: "dataframe \<Rightarrow> string \<Rightarrow> real \<Rightarrow> dataframe result" where
  "filter_eq df c v =
     (case col_pos (df_columns df) c of
        None \<Rightarrow> Inl (KeyError c)
      | Some j \<Rightarrow> Inr (df\<lparr>df_rows := filter (\<lambda>(i, r). r ! j = Some v) (df_rows df)\<rparr>))"

text \<open>\<^verbatim>\<open>df[cs] = df[cs].fillna(v)\<close>: in the columns \<open>cs\<close>, a missing cell becomes \<open>v\<close>.\<close>

definition fillna :: "real \<Rightarrow> cell \<Rightarrow> cell" where
  "fillna v x = (case x of None \<Rightarrow> Some v | Some y \<Rightarrow> Some y)"

definition fillna_cols :: "dataframe \<Rightarrow> string list \<Rightarrow> real \<Rightarrow> dataframe" where
  "fillna_cols df cs v =
     df\<lparr>df_rows :=
          map (\<lambda>(i, r). (i, map (\<lambda>(c, x). if c \<in> set cs then fillna v x else x)
                                 (zip (df_columns df) r)))
              (df_rows df)\<rparr>"

text \<open>
  \<^verbatim>\<open>np.asarray(...)\<close> of cells: the number in each cell.  A cell still missing would
  become NaN, which the embedding's arrays cannot hold.
\<close>

definition to_float :: "string \<Rightarrow> cell \<Rightarrow> real result" where
  "to_float c x = (case x of None \<Rightarrow> Inl (NaNInput c) | Some y \<Rightarrow> Inr y)"

text \<open>\<^verbatim>\<open>np.asarray(df[cs])\<close>: one matrix row per data row, one entry per name of \<open>cs\<close>.\<close>

definition asarray_cols :: "dataframe \<Rightarrow> string list \<Rightarrow> matrix result" where
  "asarray_cols df cs =
     bind (traverse (\<lambda>c. case col_pos (df_columns df) c of
                            None \<Rightarrow> Inl (KeyError c) | Some j \<Rightarrow> Inr (c, j)) cs)
       (\<lambda>js. traverse (\<lambda>(i, r). traverse (\<lambda>(c, j). to_float c (r ! j)) js) (df_rows df))"

text \<open>\<^verbatim>\<open>np.asarray(df[c], dtype=float)\<close>: one column as a vector.\<close>

definition asarray_col :: "dataframe \<Rightarrow> string \<Rightarrow> real list result" where
  "asarray_col df c = bind (getitem df c) (traverse (to_float c))"

definition column_stack :: "real list \<Rightarrow> real list \<Rightarrow> matrix" where
  "column_stack xs ys = map (\<lambda>(x, y). [x, y]) (zip xs ys)"

text \<open>
  \<^verbatim>\<open>a.reshape((-1, 1))\<close> lays all entries out, row by row, as one column;
  \<^verbatim>\<open>b.reshape((n, m))\<close> cuts the entries of \<open>b\<close> into \<open>n\<close> rows of \<open>m\<close>, and raises
  when their number is not \<open>n * m\<close>.
\<close>

definition reshape_column :: "matrix \<Rightarrow> matrix" where
  "reshape_column X = map (\<lambda>x. [x]) (concat X)"

definition reshape :: "matrix \<Rightarrow> nat \<times> nat \<Rightarrow> matrix result" where
  "reshape Y shp =
     (case shp of (n, m) \<Rightarrow>
        if length (concat Y) \<noteq> n * m then Inl (ValueError ''cannot reshape array'')
        else Inr (map (\<lambda>i. take m (drop (i * m) (concat Y))) [0..<n]))"

section \<open>The Loader\<close>

text \<open>
  The transformer objects live in a store; the Loader and the bundles it builds hold
  their addresses, so that two fields naming one object see each other's updates, as
  references do in Python.
\<close>

type_synonym store = "addr \<Rightarrow> scaler"

text \<open>The four \<^verbatim>\<open>namedtuple\<close> types of \<^verbatim>\<open>process_data\<close>.\<close>

record TrainLabel =
  coords :: matrix
  coords_scaled :: matrix
  coords_scaler :: "addr option"

record TestLabel =
  coords :: matrix
  coords_scaled :: matrix
  coords_scaler :: "addr option"

record TrainData =
  rss :: matrix
  rss_scaled :: matrix
  rss_scaler :: "addr option"
  labels :: TrainLabel

record TestData =
  rss :: matrix
  rss_scaled :: matrix
  labels :: TestLabel

text \<open>
  The Loader object.  The fields \<open>frac\<close>, \<open>prefix\<close> and \<open>floor\<close> carry a suffix, the
  plain names being taken.  \<open>no_waps\<close> and \<open>waps_size\<close> are attributes that exist only
  after \<^verbatim>\<open>load_data\<close>; \<open>heap\<close> is the store of the transformer objects.
\<close>

record loader =
  path :: string
  frac_l :: real
  prepocessor :: string
  prefix_l :: string
  no_val_rss :: real
  floor_l :: real
  test_size :: real
  rssi_scaler :: "addr option"
  coords_preprocessing :: "addr option"
  training_fname :: string
  testing_fname :: string
  data_fname :: string
  num_aps :: nat
  training_data :: "TrainData option"
  training_df :: "dataframe option"
  testing_data :: "TestData option"
  testing_df :: "dataframe option"
  no_waps :: "string list option"
  waps_size :: "nat option"
  heap :: store

text \<open>
  What the Loader does to the outside: it prints, and it reads a file.  The file system
  maps a path to the table stored there.  \<^verbatim>\<open>train_test_split\<close> and
  \<^verbatim>\<open>DataFrame.sample\<close> draw at random; they are parameters, \<open>tts\<close> and \<open>sample\<close>.
\<close>

datatype event = Print "pyval list" | ReadCsv string

record world =
  files :: "string \<Rightarrow> csv_table option"
  tts :: "dataframe \<Rightarrow> real \<Rightarrow> (dataframe \<times> dataframe) result"
  sample :: "dataframe \<Rightarrow> real \<Rightarrow> dataframe result"

definition load_data :: "world \<Rightarrow> loader \<Rightarrow> loader result \<times> event list" where
  "load_data W self =
     (case files W (data_fname self) of
        None \<Rightarrow> Inl (FileNotFoundError (data_fname self))
      | Some t \<Rightarrow>
          bind (filter_eq (read_csv t) ''floor'' (floor_l self)) (\<lambda>data.
          bind (tts W data (test_size self)) (\<lambda>(train_data, test_data).
            let self = self\<lparr>training_df := Some train_data, testing_df := Some test_data\<rparr>;
                nw = filter (\<lambda>cols. sublist ''AP'' cols) (df_columns train_data);
                self = self\<lparr>no_waps := Some nw, waps_size := Some (length nw)\<rparr>
            in if frac_l self < 1 then
                 bind (sample W train_data (frac_l self)) (\<lambda>tr.
                 bind (sample W test_data (frac_l self)) (\<lambda>te.
                   Inr (self\<lparr>training_df := Some tr, testing_df := Some te\<rparr>)))
               else Inr self)),
      [ReadCsv (data_fname self)])"

text \<open>\<^verbatim>\<open>obj.fit_transform(X)\<close> on the object at address \<open>a\<close>: the object is refitted in place.\<close>

definition fit_transform_at :: "store \<Rightarrow> addr \<Rightarrow> matrix \<Rightarrow> (store \<times> matrix) result" where
  "fit_transform_at h a X =
     bind (fit_transform (h a) X) (\<lambda>(s', Y). Inr (h(a := s'), Y))"

text \<open>The first two statements of \<^verbatim>\<open>process_data\<close>: the fill of the missing readings.\<close>

definition fill_missing :: "loader \<Rightarrow> loader result" where
  "fill_missing self =
     (case no_waps self of
        None \<Rightarrow> Inl (AttributeError ''Loader'' ''no_waps'')
      | Some nw \<Rightarrow>
     (case training_df self of
        None \<Rightarrow> Inl (TypeError ''NoneType is not subscriptable'')
      | Some trdf \<Rightarrow>
     (case testing_df self of
        None \<Rightarrow> Inl (TypeError ''NoneType is not subscriptable'')
      | Some tedf \<Rightarrow>
          Inr (self\<lparr>training_df := Some (fillna_cols trdf nw (no_val_rss self)),
                    testing_df := Some (fillna_cols tedf nw (no_val_rss self))\<rparr>))))"

text \<open>
  The scaling of one RSS matrix: flattened to one column, fitted and transformed, cut
  back to the shape of the raw matrix.
\<close>

definition scale_flattened :: "store \<Rightarrow> addr \<Rightarrow> matrix \<Rightarrow> nat \<times> nat \<Rightarrow> (store \<times> matrix) result" where
  "scale_flattened h a X shp =
     bind (fit_transform_at h a (reshape_column X)) (\<lambda>(h', Y).
     bind (reshape Y shp) (\<lambda>Z. Inr (h', Z)))"

text \<open>
  The rest of \<^verbatim>\<open>process_data\<close>, from the filled frames on, block by block: the
  scaling of the two RSS matrices, the stacking of the coordinate columns of one frame,
  the scaling of the two coordinate matrices, and the four bundles.
\<close>

definition scale_rss ::
  "loader \<Rightarrow> matrix \<Rightarrow> nat \<times> nat \<Rightarrow> matrix \<Rightarrow> nat \<times> nat \<Rightarrow> (store \<times> matrix \<times> matrix) result" where
  "scale_rss self rss_training shp_training rss_testing shp_testing =
     (case rssi_scaler self of
        Some a \<Rightarrow>
          bind (scale_flattened (heap self) a rss_training shp_training) (\<lambda>(h1, rss_training_scaled).
          bind (scale_flattened h1 a rss_testing shp_testing) (\<lambda>(h2, rss_testing_scaled).
            Inr (h2, rss_training_scaled, rss_testing_scaled)))
      | None \<Rightarrow> Inr (heap self, rss_training, rss_testing))"

definition process_coords :: "dataframe \<Rightarrow> matrix result" where
  "process_coords df =
     bind (asarray_col df ''xr'') (\<lambda>coord_x.
     bind (asarray_col df ''yr'') (\<lambda>coord_y.
       Inr (column_stack coord_x coord_y)))"

text \<open>
  Without a coordinate transformer the code binds \<^verbatim>\<open>training_coords_scaled\<close> twice
  and \<^verbatim>\<open>testing_coords_scaled\<close> never, so building the testing labels raises
  \<open>NameError\<close>.
\<close>

definition scale_coords ::
  "loader \<Rightarrow> store \<Rightarrow> matrix \<Rightarrow> matrix \<Rightarrow> (store \<times> matrix \<times> matrix) result" where
  "scale_coords self h training_coords testing_coords =
     (case coords_preprocessing self of
        Some c \<Rightarrow>
          bind (fit_transform_at h c training_coords) (\<lambda>(h3, training_coords_scaled).
          bind (fit_transform_at h3 c testing_coords) (\<lambda>(h4, testing_coords_scaled).
            Inr (h4, training_coords_scaled, testing_coords_scaled)))
      | None \<Rightarrow> Inl (NameError ''testing_coords_scaled''))"

definition scale_and_bundle :: "loader \<Rightarrow> loader result" where
  "scale_and_bundle self =
     (case no_waps self of
        None \<Rightarrow> Inl (AttributeError ''Loader'' ''no_waps'')
      | Some nw \<Rightarrow>
     (case training_df self of
        None \<Rightarrow> Inl (TypeError ''NoneType is not subscriptable'')
      | Some trdf \<Rightarrow>
     (case testing_df self of
        None \<Rightarrow> Inl (TypeError ''NoneType is not subscriptable'')
      | Some tedf \<Rightarrow>
          bind (asarray_cols trdf nw) (\<lambda>rss_training.
          bind (asarray_cols tedf nw) (\<lambda>rss_testing.
          bind (scale_rss self rss_training (length (df_rows trdf), length nw)
                  rss_testing (length (df_rows tedf), length nw)) (\<lambda>rss_result.
          bind (process_coords trdf) (\<lambda>training_coords.
          bind (process_coords tedf) (\<lambda>testing_coords.
          bind (scale_coords self (fst rss_result) training_coords testing_coords) (\<lambda>coords_result.
            Inr (self\<lparr>heap := fst coords_result,
                      training_data := Some
                        \<lparr>TrainData.rss = rss_training,
                         rss_scaled = fst (snd rss_result),
                         rss_scaler = rssi_scaler self,
                         labels =
                           \<lparr>TrainLabel.coords = training_coords,
                            coords_scaled = fst (snd coords_result),
                            coords_scaler = coords_preprocessing self\<rparr>\<rparr>,
                      testing_data := Some
                        \<lparr>TestData.rss = rss_testing,
                         rss_scaled = snd (snd rss_result),
                         labels =
                           \<lparr>TestLabel.coords = testing_coords,
                            coords_scaled = snd (snd coords_result),
                            coords_scaler = coords_preprocessing self\<rparr>\<rparr>\<rparr>))))))))))"

definition process_data :: "loader \<Rightarrow> loader result" where
  "process_data self = bind (fill_missing self) scale_and_bundle"

text \<open>
  \<^verbatim>\<open>Loader.__init__\<close>.  The arguments carry the defaults of the signature.  A new
  Loader owns two fresh transformer objects, at the addresses \<open>0\<close> and \<open>1\<close>.
\<close>

record loader_args =
  arg_path :: string
  arg_frac :: real
  arg_preprocessor :: string
  arg_prefix :: string
  arg_no_val_rss :: real
  arg_floor :: real
  arg_test_size :: real

definition default_loader_args :: loader_args where
  "default_loader_args =
     \<lparr>arg_path = ''../datas/'', arg_frac = 0.1, arg_preprocessor = ''standard_scaler'',
      arg_prefix = ''IPS-LOADER'', arg_no_val_rss = 100, arg_floor = 1, arg_test_size = 0.2\<rparr>"

definition Loader_init :: "world \<Rightarrow> loader_args \<Rightarrow> loader result \<times> event list" where
  "Loader_init W args =
     (case select_preprocessor (arg_preprocessor args) of
        None \<Rightarrow>
          (Inl (SystemExit 0),
           [Print [PyStr ''{} - Preprocessing Method is not Supported!'', PyStr (arg_prefix args)]])
      | Some (rs, cs) \<Rightarrow>
          (let self =
                 \<lparr>path = arg_path args,
                  frac_l = arg_frac args,
                  prepocessor = arg_preprocessor args,
                  prefix_l = arg_prefix args,
                  no_val_rss = arg_no_val_rss args,
                  floor_l = arg_floor args,
                  test_size = arg_test_size args,
                  rssi_scaler = Some 0,
                  coords_preprocessing = Some 1,
                  training_fname = arg_path args @ ''trainingData.csv'',
                  testing_fname = arg_path args @ ''testingData.csv'',
                  data_fname = arg_path args @ ''data.csv'',
                  num_aps = 0,
                  training_data = None,
                  training_df = None,
                  testing_data = None,
                  testing_df = None,
                  no_waps = None,
                  waps_size = None,
                  heap = (\<lambda>a. if a = 0 then rs else cs)\<rparr>
           in case load_data W self of
                (Inl e, evs) \<Rightarrow> (Inl e, evs)
              | (Inr self', evs) \<Rightarrow> (process_data self', evs)))"

text \<open>
  The named tuples as the Python values the trainer receives: the field names are those
  of the \<^verbatim>\<open>namedtuple\<close> declarations in \<^verbatim>\<open>process_data\<close>.
\<close>

definition py_scaler_ref :: "addr option \<Rightarrow> pyval" where
  "py_scaler_ref a = (case a of None \<Rightarrow> PyNone | Some x \<Rightarrow> PyScaler x)"

definition py_TrainLabel :: "TrainLabel \<Rightarrow> pyval" where
  "py_TrainLabel l =
     PyNamedTuple ''TrainLabel''
       [(A_coords, PyArray (TrainLabel.coords l)),
        (A_coords_scaled, PyArray (TrainLabel.coords_scaled l)),
        (A_coords_scaler, py_scaler_ref (TrainLabel.coords_scaler l))]"

definition py_TestLabel :: "TestLabel \<Rightarrow> pyval" where
  "py_TestLabel l =
     PyNamedTuple ''TestLabel''
       [(A_coords, PyArray (TestLabel.coords l)),
        (A_coords_scaled, PyArray (TestLabel.coords_scaled l)),
        (A_coords_scaler, py_scaler_ref (TestLabel.coords_scaler l))]"

definition py_TrainData :: "TrainData \<Rightarrow> pyval" where
  "py_TrainData d =
     PyNamedTuple ''TrainData''
       [(A_rss, PyArray (TrainData.rss d)),
        (A_rss_scaled, PyArray (TrainData.rss_scaled d)),
        (A_rss_scaler, py_scaler_ref (TrainData.rss_scaler d)),
        (A_labels, py_TrainLabel (TrainData.labels d))]"

definition py_TestData :: "TestData \<Rightarrow> pyval" where
  "py_TestData d =
     PyNamedTuple ''TestData''
       [(A_rss, PyArray (TestData.rss d)),
        (A_rss_scaled, PyArray (TestData.rss_scaled d)),
        (A_labels, py_TestLabel (TestData.labels d))]"

section \<open>The regression trainer\<close>

text \<open>\<^verbatim>\<open>len(v)\<close> and \<^verbatim>\<open>v[:, j]\<close> on a Python value.\<close>

fun py_len :: "pyval \<Rightarrow> nat result" where
  "py_len (PyStr s) = Inr (length s)"
| "py_len (PyTuple xs) = Inr (length xs)"
| "py_len (PyNamedTuple tn fs) = Inr (length fs)"
| "py_len (PyArray X) = Inr (length X)"
| "py_len (PyVector xs) = Inr (length xs)"
| "py_len v = Inl (TypeError (''object of type '' @ type_name v @ '' has no len()''))"

fun py_column :: "pyval \<Rightarrow> nat \<Rightarrow> pyval result" where
  "py_column (PyArray X) j =
     (if j < n_cols X then Inr (PyVector (column X j))
      else Inl (IndexError ''index is out of bounds for axis 1''))"
| "py_column (PyVector xs) j = Inl (IndexError ''too many indices for array'')"
| "py_column v j = Inl (TypeError (type_name v @ '' cannot be indexed by a tuple''))"

text \<open>
  The Keras network as the graph of layers the code builds: a layer carries the layer it
  is applied to.
\<close>

datatype layer =
    Input nat string
  | Dense nat "string option" "string option" layer
  | Dropout real layer
  | Concatenate "layer list"

record keras_model =
  inputs :: "layer list"
  outputs :: "layer list"

datatype callback =
    ModelCheckpoint string bool string string bool int
  | EarlyStopping string int string bool int

record fit_config =
  fc_epochs :: int
  fc_batch_size :: int
  fc_validation_data :: "pyval list \<times> pyval list"
  fc_callbacks :: "callback list"

text \<open>
  What Keras and \<^verbatim>\<open>sklearn.metrics\<close> do is not this program's: compiling a graph with
  an optimizer, a loss and metrics into a network \<open>'net\<close>, fitting it, predicting with it,
  its summary lines, and the two metric functions are parameters.
\<close>

record 'net library =
  k_compile :: "keras_model \<Rightarrow> pyval \<Rightarrow> string \<Rightarrow> string list \<Rightarrow> 'net result"
  k_fit :: "'net \<Rightarrow> pyval list \<Rightarrow> pyval list \<Rightarrow> fit_config \<Rightarrow> 'net result"
  k_predict :: "'net \<Rightarrow> pyval list \<Rightarrow> pyval list result"
  k_summary :: "'net \<Rightarrow> string list"
  k_mse :: "pyval \<Rightarrow> pyval \<Rightarrow> real result"
  k_r2 :: "pyval \<Rightarrow> pyval \<Rightarrow> real result"

record 'net trainer =
  random_state :: "int option"
  training_data :: pyval
  testing_data :: pyval
  preprocessor :: pyval
  batch_size :: int
  epochs :: int
  optimizer :: pyval
  validation_split :: "real option"
  dropout :: real
  tx_power :: bool
  patience :: int
  checkpoint_filepath :: string
  save_model :: bool
  model :: "'net option"
  rss_train_scaled :: pyval
  power_train :: pyval
  xr_train_scaled :: pyval
  yr_train_scaled :: pyval
  rss_test_scaled :: pyval
  power_test :: pyval
  xr_test_scaled :: pyval
  yr_test_scaled :: pyval

record trainer_args =
  t_training_data :: pyval
  t_testing_data :: pyval
  t_random_state :: "int option"
  t_preprocessor :: pyval
  t_batch_size :: int
  t_epochs :: int
  t_optimizer :: pyval
  t_validation_split :: "real option"
  t_dropout :: real
  t_tx_power :: bool
  t_patience :: int
  t_checkpoint_filepath :: string
  t_save_model :: bool

text \<open>
  \<^verbatim>\<open>DNN_Regression.__init__\<close>.  A statement \<^verbatim>\<open>self.x = v,\<close> stores the tuple
  \<^verbatim>\<open>(v,)\<close>.  \<^verbatim>\<open>np.random\<close> is a module, so calling it raises \<open>TypeError\<close>.
\<close>

definition DNN_Regression_init :: "trainer_args \<Rightarrow> 'net trainer result" where
  "DNN_Regression_init args =
     (let training_data = PyTuple [t_training_data args];
          testing_data = PyTuple [t_testing_data args];
          optimizer = PyTuple [t_optimizer args]
      in
        bind (py_getattr training_data A_rss_scaled) (\<lambda>rss_train_scaled.
        bind (py_getattr training_data A_power) (\<lambda>power_train.
        bind (bind (bind (py_getattr testing_data A_labels)
                (\<lambda>l. py_getattr l A_coords_scaled)) (\<lambda>c. py_column c 0)) (\<lambda>xr_train_scaled.
        bind (bind (bind (py_getattr testing_data A_labels)
                (\<lambda>l. py_getattr l A_coords_scaled)) (\<lambda>c. py_column c 1)) (\<lambda>yr_train_scaled.
        bind (py_getattr testing_data A_rss_scaled) (\<lambda>rss_test_scaled.
        bind (py_getattr testing_data A_power) (\<lambda>power_test.
        bind (bind (bind (py_getattr testing_data A_labels)
                (\<lambda>l. py_getattr l A_coords_scaled)) (\<lambda>c. py_column c 0)) (\<lambda>xr_test_scaled.
        bind (bind (bind (py_getattr testing_data A_labels)
                (\<lambda>l. py_getattr l A_coords_scaled)) (\<lambda>c. py_column c 1)) (\<lambda>yr_test_scaled.
          if t_random_state args \<noteq> None then Inl (TypeError ''module object is not callable'')
          else
            Inr \<lparr>random_state = t_random_state args,
                 training_data = training_data,
                 testing_data = testing_data,
                 preprocessor = t_preprocessor args,
                 batch_size = t_batch_size args,
                 epochs = t_epochs args,
                 optimizer = optimizer,
                 validation_split = t_validation_split args,
                 dropout = t_dropout args,
                 tx_power = t_tx_power args,
                 patience = t_patience args,
                 checkpoint_filepath = t_checkpoint_filepath args,
                 save_model = t_save_model args,
                 model = None,
                 rss_train_scaled = rss_train_scaled,
                 power_train = power_train,
                 xr_train_scaled = xr_train_scaled,
                 yr_train_scaled = yr_train_scaled,
                 rss_test_scaled = rss_test_scaled,
                 power_test = power_test,
                 xr_test_scaled = xr_test_scaled,
                 yr_test_scaled = yr_test_scaled\<rparr>)))))))))"

text \<open>
  The two graphs of \<^verbatim>\<open>build_model\<close>, one per branch of its \<^verbatim>\<open>if self.tx_power\<close>,
  for the dropout rate \<open>d\<close> and \<open>num_anchor\<close> inputs.
\<close>

definition dual_branch_model :: "real \<Rightarrow> nat \<Rightarrow> keras_model" where
  "dual_branch_model d num_anchor =
     (let input_rss = Input num_anchor ''input_rss'';
          input_power = Input num_anchor ''input_power'';
          hidden_rss = Dense 64 (Some ''relu'') None input_rss;
          hidden_rss = Dropout d hidden_rss;
          hidden_rss = Dense 32 (Some ''relu'') None hidden_rss;
          hidden_power = Dense 64 (Some ''relu'') None input_power;
          hidden_power = Dropout d hidden_power;
          hidden_power = Dense 32 (Some ''relu'') None hidden_power;
          merged = Concatenate [hidden_rss, hidden_power];
          hidden_merged = Dense 128 (Some ''relu'') None merged;
          hidden_merged = Dropout d hidden_merged;
          hidden_merged = Dense 64 (Some ''relu'') None hidden_merged;
          output_xr = Dense 1 None (Some ''output_xr'') hidden_merged;
          output_yr = Dense 1 None (Some ''output_yr'') hidden_merged
      in \<lparr>inputs = [input_rss, input_power], outputs = [output_xr, output_yr]\<rparr>)"

definition single_branch_model :: "real \<Rightarrow> nat \<Rightarrow> keras_model" where
  "single_branch_model d num_anchor =
     (let input_rss = Input num_anchor ''input_rss'';
          hidden_rss = Dense 64 (Some ''relu'') None input_rss;
          hidden_rss = Dropout d hidden_rss;
          hidden_rss = Dense 32 (Some ''relu'') None hidden_rss;
          output_xr = Dense 1 None (Some ''output_xr'') hidden_rss;
          output_yr = Dense 1 None (Some ''output_yr'') hidden_rss
      in \<lparr>inputs = [input_rss], outputs = [output_xr, output_yr]\<rparr>)"

text \<open>
  \<^verbatim>\<open>build_model\<close>.  With \<open>tx_power\<close> the compiled network is bound to the local name
  \<^verbatim>\<open>model\<close> and the object is left as it was; without, it is stored in
  \<^verbatim>\<open>self.model\<close>.
\<close>

definition build_model :: "'net library \<Rightarrow> 'net trainer \<Rightarrow> 'net trainer result \<times> event list" where
  "build_model K self =
     (case py_len (rss_train_scaled self) of
        Inl e \<Rightarrow> (Inl e, [])
      | Inr num_anchor \<Rightarrow>
          (if tx_power self then
             bind (k_compile K (dual_branch_model (dropout self) num_anchor)
                     (optimizer self) ''mse'' [''accuracy''])
               (\<lambda>model. Inr self)
           else
             bind (k_compile K (single_branch_model (dropout self) num_anchor)
                     (optimizer self) ''mse'' [''accuracy''])
               (\<lambda>m. Inr (self\<lparr>model := Some m\<rparr>)),
           [Print [PyInt (int num_anchor)]]))"

definition train :: "'net library \<Rightarrow> 'net trainer \<Rightarrow> 'net trainer result \<times> event list" where
  "train K self =
     (let checkpoint_callback =
            ModelCheckpoint (checkpoint_filepath self) False ''val_loss'' ''min'' True 1;
          earlystopping_callback =
            EarlyStopping ''val_loss'' (patience self) ''min'' True 1
      in case model self of
           None \<Rightarrow> (Inl (AttributeError ''NoneType'' ''fit''), [])
         | Some m \<Rightarrow>
             (case (if tx_power self then
                      k_fit K m [rss_train_scaled self, power_train self]
                        [xr_train_scaled self, yr_train_scaled self]
                        \<lparr>fc_epochs = epochs self, fc_batch_size = batch_size self,
                         fc_validation_data =
                           ([rss_test_scaled self, power_test self],
                            [xr_test_scaled self, yr_test_scaled self]),
                         fc_callbacks = [checkpoint_callback, earlystopping_callback]\<rparr>
                    else
                      k_fit K m [rss_train_scaled self]
                        [xr_train_scaled self, yr_train_scaled self]
                        \<lparr>fc_epochs = epochs self, fc_batch_size = batch_size self,
                         fc_validation_data =
                           ([rss_test_scaled self],
                            [xr_test_scaled self, yr_test_scaled self]),
                         fc_callbacks = [checkpoint_callback, earlystopping_callback]\<rparr>) of
                Inl e \<Rightarrow> (Inl e, [])
              | Inr m' \<Rightarrow>
                  (Inr (self\<lparr>model := Some m'\<rparr>),
                   map (\<lambda>l. Print [PyStr l]) (k_summary K m') @ [Print [PyNone]])))"

text \<open>
  \<^verbatim>\<open>v.inverse_transform(x)\<close>: a transformer object answers with the parameters it
  holds in the store, for a two-dimensional array; no other value has the method.
\<close>

definition call_inverse_transform :: "store \<Rightarrow> pyval \<Rightarrow> pyval \<Rightarrow> pyval result" where
  "call_inverse_transform h v x =
     (case v of
        PyScaler a \<Rightarrow>
          (case x of
             PyArray X \<Rightarrow> bind (inverse_transform (h a) X) (\<lambda>Y. Inr (PyArray Y))
           | _ \<Rightarrow>
               (case h a of
                  Normalizer \<Rightarrow> Inl (AttributeError ''Normalizer'' ''inverse_transform'')
                | StandardScaler None \<Rightarrow> Inl (NotFittedError ''StandardScaler'')
                | MinMaxScaler None \<Rightarrow> Inl (NotFittedError ''MinMaxScaler'')
                | _ \<Rightarrow> Inl (ValueError ''Expected 2D array'')))
      | _ \<Rightarrow> Inl (AttributeError (type_name v) ''inverse_transform''))"

definition metrics_banner :: string where
  "metrics_banner = ''-=-=-=-=-=-=-=-=- Metrics Evaluation -=-=-=-=-=-=-=-=-''"

definition evaluate :: "'net library \<Rightarrow> store \<Rightarrow> 'net trainer \<Rightarrow> unit result \<times> event list" where
  "evaluate K h self =
     (case model self of
        None \<Rightarrow> (Inl (AttributeError ''NoneType'' ''predict''), [])
      | Some m \<Rightarrow>
     (case bind (k_predict K m
                   (if tx_power self then [rss_test_scaled self, power_test self]
                    else [rss_test_scaled self]))
             (\<lambda>out. case out of
                 [xr_pred, yr_pred] \<Rightarrow>
                   bind (call_inverse_transform h (preprocessor self) xr_pred) (\<lambda>xr_pred.
                   bind (call_inverse_transform h (preprocessor self) yr_pred) (\<lambda>yr_pred.
                   bind (call_inverse_transform h (preprocessor self) (xr_test_scaled self)) (\<lambda>xr_test.
                   bind (call_inverse_transform h (preprocessor self) (yr_test_scaled self)) (\<lambda>yr_test.
                   bind (k_mse K xr_test xr_pred) (\<lambda>xr_mse.
                   bind (k_mse K yr_test yr_pred) (\<lambda>yr_mse.
                   bind (k_r2 K xr_test xr_pred) (\<lambda>xr_r2.
                   bind (k_r2 K yr_test yr_pred) (\<lambda>yr_r2.
                     Inr (xr_mse, yr_mse, xr_r2, yr_r2)))))))))
               | _ \<Rightarrow> Inl (ValueError ''cannot unpack the predictions'')) of
        Inl e \<Rightarrow> (Inl e, [])
      | Inr (xr_mse, yr_mse, xr_r2, yr_r2) \<Rightarrow>
          (Inr (),
           [Print [PyStr metrics_banner],
            Print [PyStr ''Deep Neural Network (Regression)''],
            Print [PyStr ''MSE for X Coordinates: '', PyFloat xr_mse],
            Print [PyStr ''MSE for Y Coordinates: '', PyFloat yr_mse],
            Print [PyStr [CHR 0x0A]],
            Print [PyStr ''R2 Score for X Coordinates: '', PyFloat xr_r2],
            Print [PyStr ''R2 Score for Y Coordinates: '', PyFloat yr_r2],
            Print [PyStr metrics_banner]])))"

section \<open>Notions used in the statements\<close>

text \<open>The number of per-feature parameters a fitted transformer holds.\<close>

fun param_count :: "scaler \<Rightarrow> nat" where
  "param_count (StandardScaler (Some (mu, sc))) = length mu"
| "param_count (MinMaxScaler (Some (mn, sc))) = length mn"
| "param_count _ = 0"

text \<open>
  What a transformer fitted on a single column does to one entry of that column.
\<close>

fun entry_scale :: "scaler \<Rightarrow> real \<Rightarrow> real" where
  "entry_scale (StandardScaler (Some (mu, sc))) x = (x - hd mu) / hd sc"
| "entry_scale (MinMaxScaler (Some (mn, sc))) x = x * hd sc + hd mn"
| "entry_scale Normalizer x = x / handle_zeros_in_scale (l2_norm [x])"
| "entry_scale s x = x"

text \<open>A frame is well formed when every row has one cell per column.\<close>

definition wf_df :: "dataframe \<Rightarrow> bool" where
  "wf_df df = list_all (\<lambda>(i, r). length r = length (df_columns df)) (df_rows df)"

text \<open>
  \<open>filled_from nw v df df'\<close>: the frame \<open>df'\<close> is \<open>df\<close> with the missing cells of the
  columns \<open>nw\<close> replaced by \<open>v\<close>: same columns, same row labels, in a column of \<open>nw\<close> no
  cell is missing, a cell that was missing is \<open>v\<close>, and every other cell is as it was.
\<close>

definition filled_from :: "string list \<Rightarrow> real \<Rightarrow> dataframe \<Rightarrow> dataframe \<Rightarrow> bool" where
  "filled_from nw v df df' \<longleftrightarrow>
     df_columns df' = df_columns df \<and>
     map fst (df_rows df') = map fst (df_rows df) \<and>
     (\<forall>k < length (df_rows df). \<forall>j < length (df_columns df).
        let c = df_columns df ! j;
            old = snd (df_rows df ! k) ! j;
            new = snd (df_rows df' ! k) ! j
        in (c \<in> set nw \<longrightarrow>
              new \<noteq> None \<and> (old = None \<longrightarrow> new = Some v) \<and> (old \<noteq> None \<longrightarrow> new = old))
         \<and> (c \<notin> set nw \<longrightarrow> new = old))"

text \<open>
  What the Loader relies on from the two random draws: \<^verbatim>\<open>train_test_split\<close> returns
  two frames over the columns and rows of its argument that share no row label when the
  argument's labels are distinct; \<^verbatim>\<open>sample\<close> returns rows of its argument.
\<close>

definition tts_sound :: "world \<Rightarrow> bool" where
  "tts_sound W \<longleftrightarrow>
     (\<forall>df ts tr te. tts W df ts = Inr (tr, te) \<longrightarrow>
        df_columns tr = df_columns df \<and> df_columns te = df_columns df \<and>
        set (df_rows tr) \<subseteq> set (df_rows df) \<and> set (df_rows te) \<subseteq> set (df_rows df) \<and>
        (distinct (map fst (df_rows df)) \<longrightarrow>
           fst ` set (df_rows tr) \<inter> fst ` set (df_rows te) = {}))"

definition sample_sound :: "world \<Rightarrow> bool" where
  "sample_sound W \<longleftrightarrow>
     (\<forall>df fr r. sample W df fr = Inr r \<longrightarrow>
        df_columns r = df_columns df \<and> set (df_rows r) \<subseteq> set (df_rows df))"

text \<open>
  The network in the words of the design: a branch is a 64-unit dense layer, dropout and
  a 32-unit dense layer; the merge block is a 128-unit dense layer, dropout and a 64-unit
  dense layer; the heads are two single-unit dense layers on one hidden layer.
\<close>

definition spec_branch :: "real \<Rightarrow> layer \<Rightarrow> layer" where
  "spec_branch d i = Dense 32 (Some ''relu'') None (Dropout d (Dense 64 (Some ''relu'') None i))"

definition spec_merge_block :: "real \<Rightarrow> layer \<Rightarrow> layer" where
  "spec_merge_block d l = Dense 64 (Some ''relu'') None (Dropout d (Dense 128 (Some ''relu'') None l))"

definition spec_heads :: "layer \<Rightarrow> layer list" where
  "spec_heads hid = [Dense 1 None (Some ''output_xr'') hid, Dense 1 None (Some ''output_yr'') hid]"

text \<open>The input layers a layer is computed from, and the number of its merge points.\<close>

fun layer_inputs :: "layer \<Rightarrow> layer list" where
  "layer_inputs (Input n s) = [Input n s]"
| "layer_inputs (Dense u a nm l) = layer_inputs l"
| "layer_inputs (Dropout d l) = layer_inputs l"
| "layer_inputs (Concatenate ls) = concat (map layer_inputs ls)"

fun concat_count :: "layer \<Rightarrow> nat" where
  "concat_count (Input n s) = 0"
| "concat_count (Dense u a nm l) = concat_count l"
| "concat_count (Dropout d l) = concat_count l"
| "concat_count (Concatenate ls) = Suc (sum_list (map concat_count ls))"

section \<open>A worked run\<close>

text \<open>
  A data set of five fingerprints over two access points, four of them on floor 1; a
  world whose split hands the first two rows to training and the rest to testing; and the
  Loader's states along the run with the default preprocessor and the sentinel \<open>-100\<close>.
\<close>

definition example_table :: csv_table where
  "example_table =
     \<lparr>header = [''AP1'', ''AP2'', ''floor'', ''xr'', ''yr''],
      body = [[None, Some (-60), Some 1, Some 0, Some 0],
              [Some (-60), None, Some 1, Some 2, Some 2],
              [Some (-70), Some (-70), Some 2, Some 5, Some 5],
              [Some (-80), None, Some 1, Some 10, Some 10],
              [None, Some (-80), Some 1, Some 30, Some 30]]\<rparr>"

definition example_world :: world where
  "example_world =
     \<lparr>files = (\<lambda>p. if p = ''../datas/data.csv'' then Some example_table else None),
      tts = (\<lambda>df ts. Inr (df\<lparr>df_rows := take 2 (df_rows df)\<rparr>,
                          df\<lparr>df_rows := drop 2 (df_rows df)\<rparr>)),
      sample = (\<lambda>df fr. Inr (df\<lparr>df_rows := take 1 (df_rows df)\<rparr>))\<rparr>"

definition example_args :: loader_args where
  "example_args =
     default_loader_args\<lparr>arg_frac := 1, arg_no_val_rss := -100, arg_test_size := 0.5\<rparr>"

definition example_self :: loader where
  "example_self =
     \<lparr>path = ''../datas/'', frac_l = 1, prepocessor = ''standard_scaler'',
      prefix_l = ''IPS-LOADER'', no_val_rss = -100, floor_l = 1, test_size = 0.5,
      rssi_scaler = Some 0, coords_preprocessing = Some 1,
      training_fname = ''../datas/trainingData.csv'',
      testing_fname = ''../datas/testingData.csv'',
      data_fname = ''../datas/data.csv'',
      num_aps = 0, training_data = None, training_df = None, testing_data = None,
      testing_df = None, no_waps = None, waps_size = None,
      heap = (\<lambda>a. if a = 0 then StandardScaler None else StandardScaler None)\<rparr>"

definition example_columns :: "string list" where
  "example_columns = [''AP1'', ''AP2'', ''floor'', ''xr'', ''yr'']"

definition example_train_df :: dataframe where
  "example_train_df =
     \<lparr>df_columns = example_columns,
      df_rows = [(0, [None, Some (-60), Some 1, Some 0, Some 0]),
                 (1, [Some (-60), None, Some 1, Some 2, Some 2])]\<rparr>"

definition example_test_df :: dataframe where
  "example_test_df =
     \<lparr>df_columns = example_columns,
      df_rows = [(3, [Some (-80), None, Some 1, Some 10, Some 10]),
                 (4, [None, Some (-80), Some 1, Some 30, Some 30])]\<rparr>"

definition example_loaded :: loader where
  "example_loaded =
     example_self
       \<lparr>loader.training_df := Some example_train_df,
        loader.testing_df := Some example_test_df,
        no_waps := Some [''AP1'', ''AP2''], waps_size := Some 2\<rparr>"

definition example_train_filled :: dataframe where
  "example_train_filled =
     \<lparr>df_columns = example_columns,
      df_rows = [(0, [Some (-100), Some (-60), Some 1, Some 0, Some 0]),
                 (1, [Some (-60), Some (-100), Some 1, Some 2, Some 2])]\<rparr>"

definition example_test_filled :: dataframe where
  "example_test_filled =
     \<lparr>df_columns = example_columns,
      df_rows = [(3, [Some (-80), Some (-100), Some 1, Some 10, Some 10]),
                 (4, [Some (-100), Some (-80), Some 1, Some 30, Some 30])]\<rparr>"

definition example_filled :: loader where
  "example_filled =
     example_loaded
       \<lparr>loader.training_df := Some example_train_filled,
        loader.testing_df := Some example_test_filled\<rparr>"

definition example_heap :: store where
  "example_heap =
     (\<lambda>a. if a = 0 then StandardScaler (Some ([-90], [10]))
          else if a = 1 then StandardScaler (Some ([20, 20], [10, 10]))
          else StandardScaler None)"

definition example_training_data :: TrainData where
  "example_training_data =
     \<lparr>TrainData.rss = [[-100, -60], [-60, -100]],
      rss_scaled = [[-1, 1], [1, -1]],
      rss_scaler = Some 0,
      labels = \<lparr>TrainLabel.coords = [[0, 0], [2, 2]],
                coords_scaled = [[-1, -1], [1, 1]],
                coords_scaler = Some 1\<rparr>\<rparr>"

definition example_testing_data :: TestData where
  "example_testing_data =
     \<lparr>TestData.rss = [[-80, -100], [-100, -80]],
      rss_scaled = [[1, -1], [-1, 1]],
      labels = \<lparr>TestLabel.coords = [[10, 10], [30, 30]],
                coords_scaled = [[-1, -1], [1, 1]],
                coords_scaler = Some 1\<rparr>\<rparr>"

definition example_processed :: loader where
  "example_processed =
     example_filled
       \<lparr>heap := example_heap,
        loader.training_data := Some example_training_data,
        loader.testing_data := Some example_testing_data\<rparr>"

text \<open>
  A stand-in for Keras whose every call succeeds, and a trainer object with the
  transmit-power flag set, the default preprocessor name, and no model yet.
\<close>

definition example_library :: "keras_model library" where
  "example_library =
     \<lparr>k_compile = (\<lambda>g opt loss ms. Inr g),
      k_fit = (\<lambda>m xs ys cfg. Inr m),
      k_predict = (\<lambda>m xs. Inr [PyArray [[0], [0]], PyArray [[0], [0]]]),
      k_summary = (\<lambda>m. []),
      k_mse = (\<lambda>a b. Inr 0),
      k_r2 = (\<lambda>a b. Inr 1)\<rparr>"

definition example_trainer :: "keras_model trainer" where
  "example_trainer =
     \<lparr>random_state = None,
      training_data = PyTuple [py_TrainData example_training_data],
      testing_data = PyTuple [py_TestData example_testing_data],
      preprocessor = PyStr ''standard_scaler'',
      batch_size = 8, epochs = 10, optimizer = PyTuple [PyStr ''adam''],
      validation_split = None, dropout = 0.2, tx_power = True, patience = 10,
      checkpoint_filepath = ''../checkpoint/'', save_model = True, model = None,
      rss_train_scaled = PyArray [[-1, 1], [1, -1]], power_train = PyArray [[0, 0], [0, 0]],
      xr_train_scaled = PyVector [-1, 1], yr_train_scaled = PyVector [-1, 1],
      rss_test_scaled = PyArray [[1, -1], [-1, 1]], power_test = PyArray [[0, 0], [0, 0]],
      xr_test_scaled = PyVector [-1, 1], yr_test_scaled = PyVector [-1, 1]\<rparr>"

section \<open>The trainer's constructor\<close>

text \<open>
  C1.  Whatever the two data bundles and the other arguments are, the constructor of
  \<^verbatim>\<open>DNN_Regression\<close> does not return: the bundles were stored as one-element tuples,
  and the first attribute lookup on such a tuple, \<^verbatim>\<open>self.training_data.rss_scaled\<close>,
  raises \<open>AttributeError\<close>.  The lookups of \<open>power\<close> and \<open>labels\<close> on a tuple fail in
  the same way, and the bundles the Loader builds have no field \<open>power\<close>.
\<close>

theorem DNN_Regression_init_never_returns:
  "DNN_Regression_init args = Inl (AttributeError ''tuple'' ''rss_scaled'')
   \<and> py_getattr (PyTuple [v]) A_rss_scaled = Inl (AttributeError ''tuple'' ''rss_scaled'')
   \<and> py_getattr (PyTuple [v]) A_power = Inl (AttributeError ''tuple'' ''power'')
   \<and> py_getattr (PyTuple [v]) A_labels = Inl (AttributeError ''tuple'' ''labels'')
   \<and> py_getattr (py_TrainData d) A_power = Inl (AttributeError ''TrainData'' ''power'')
   \<and> py_getattr (py_TestData d') A_power = Inl (AttributeError ''TestData'' ''power'')"
  by (simp add: DNN_Regression_init_def bind_def py_TrainData_def py_TestData_def)

section \<open>Evaluation\<close>

text \<open>
  C2.  \<^verbatim>\<open>evaluate\<close> calls \<^verbatim>\<open>inverse_transform\<close> on \<^verbatim>\<open>self.preprocessor\<close>.  When
  that attribute is the name of the preprocessor, a string, as the constructor's default
  \<^verbatim>\<open>'standard_scaler'\<close> is, the call raises and no metric is reported, whatever the
  library, the store, the model and the other attributes are.  On the worked trainer with
  a model in place the exception is the \<open>AttributeError\<close> of the string.
\<close>

theorem evaluate_fails_on_preprocessor_name:
  "(\<exists>e. evaluate K h (self\<lparr>preprocessor := PyStr s\<rparr>) = (Inl e, []))
   \<and> evaluate example_library h (example_trainer\<lparr>model := Some m\<rparr>) =
       (Inl (AttributeError ''str'' ''inverse_transform''), [])"
proof
  show "\<exists>e. evaluate K h (self\<lparr>preprocessor := PyStr s\<rparr>) = (Inl e, [])"
    by (auto simp: evaluate_def call_inverse_transform_def bind_def
        split: option.splits sum.splits list.splits)
  show "evaluate example_library h (example_trainer\<lparr>model := Some m\<rparr>) =
       (Inl (AttributeError ''str'' ''inverse_transform''), [])"
    by (simp add: evaluate_def call_inverse_transform_def bind_def example_library_def
        example_trainer_def)
qed

section \<open>Building the model\<close>

text \<open>
  C3.  With the transmit-power flag set, a \<^verbatim>\<open>build_model\<close> that returns leaves the
  object as it was: a trainer without a model is still without one, and \<^verbatim>\<open>train\<close>
  and \<^verbatim>\<open>evaluate\<close> then fail on \<open>None\<close>.  With the flag clear, a \<^verbatim>\<open>build_model\<close>
  that returns has stored a model.
\<close>

theorem build_model_stores_model_only_without_tx_power:
  "(tx_power self \<and> model self = None \<and> fst (build_model K self) = Inr self' \<longrightarrow>
      self' = self
    \<and> train K self' = (Inl (AttributeError ''NoneType'' ''fit''), [])
    \<and> evaluate K h self' = (Inl (AttributeError ''NoneType'' ''predict''), []))
   \<and> (\<not> tx_power self \<and> fst (build_model K self) = Inr self'' \<longrightarrow>
      (\<exists>m. model self'' = Some m))"
  by (auto simp: build_model_def bind_def train_def evaluate_def split: sum.splits)

theorem build_model_stores_model_only_without_tx_power_witness:
  "tx_power example_trainer \<and> model example_trainer = None
   \<and> fst (build_model example_library example_trainer) = Inr example_trainer
   \<and> train example_library example_trainer = (Inl (AttributeError ''NoneType'' ''fit''), [])
   \<and> evaluate example_library h example_trainer =
       (Inl (AttributeError ''NoneType'' ''predict''), [])"
proof -
  have a: "tx_power example_trainer" and b: "model example_trainer = None"
    by (simp_all add: example_trainer_def)
  have c: "fst (build_model example_library example_trainer) = Inr example_trainer"
    by (simp add: build_model_def bind_def example_library_def example_trainer_def)
  show ?thesis
    using a b c
      build_model_stores_model_only_without_tx_power
        [of example_trainer example_library example_trainer h]
    by simp
qed

text \<open>
  C9.  Without the transmit-power flag \<^verbatim>\<open>build_model\<close> compiles a graph with the one
  input \<open>input_rss\<close>, whose two heads sit on the RSS branch, with no merge point; with the
  flag it compiles a graph with the two inputs \<open>input_rss\<close> and \<open>input_power\<close>, two
  branches of the same shape joined by one concatenation, the merge block on top, and the
  two heads on the merge block.  In both, the inputs the heads are computed from are the
  declared inputs.
\<close>

theorem build_model_topology:
  "inputs (single_branch_model d n) = [Input n ''input_rss'']
   \<and> outputs (single_branch_model d n) = spec_heads (spec_branch d (Input n ''input_rss''))
   \<and> remdups (concat (map layer_inputs (outputs (single_branch_model d n))))
       = inputs (single_branch_model d n)
   \<and> map concat_count (outputs (single_branch_model d n)) = [0, 0]
   \<and> inputs (dual_branch_model d n) = [Input n ''input_rss'', Input n ''input_power'']
   \<and> outputs (dual_branch_model d n) =
       spec_heads (spec_merge_block d
         (Concatenate [spec_branch d (Input n ''input_rss''),
                       spec_branch d (Input n ''input_power'')]))
   \<and> remdups (concat (map layer_inputs (outputs (dual_branch_model d n))))
       = inputs (dual_branch_model d n)
   \<and> map concat_count (outputs (dual_branch_model d n)) = [1, 1]
   \<and> fst (build_model K (self\<lparr>tx_power := False, rss_train_scaled := PyArray X\<rparr>)) =
       bind (k_compile K (single_branch_model (dropout self) (length X)) (optimizer self)
               ''mse'' [''accuracy''])
         (\<lambda>m. Inr (self\<lparr>tx_power := False, rss_train_scaled := PyArray X, model := Some m\<rparr>))
   \<and> fst (build_model K (self\<lparr>tx_power := True, rss_train_scaled := PyArray X\<rparr>)) =
       bind (k_compile K (dual_branch_model (dropout self) (length X)) (optimizer self)
               ''mse'' [''accuracy''])
         (\<lambda>m. Inr (self\<lparr>tx_power := True, rss_train_scaled := PyArray X\<rparr>))"
  by (simp add: single_branch_model_def dual_branch_model_def spec_heads_def spec_branch_def
      spec_merge_block_def build_model_def Let_def)

section \<open>The Loader's constructor\<close>

text \<open>
  C8.  When the preprocessor name is none of \<open>standard_scaler\<close>, \<open>min_max_scaler\<close> and
  \<open>normalization\<close>, the Loader's constructor prints one message and raises
  \<open>SystemExit\<close>: it returns no Loader, and it reads no file.
\<close>

theorem Loader_init_unsupported_preprocessor:
  assumes "arg_preprocessor args \<notin> {''standard_scaler'', ''min_max_scaler'', ''normalization''}"
  shows "Loader_init W args =
           (Inl (SystemExit 0),
            [Print [PyStr ''{} - Preprocessing Method is not Supported!'',
                    PyStr (arg_prefix args)]])
         \<and> (\<forall>p. ReadCsv p \<notin> set (snd (Loader_init W args)))"
  using assms by (simp add: Loader_init_def select_preprocessor_def)

theorem Loader_init_unsupported_preprocessor_witness:
  "Loader_init example_world (example_args\<lparr>arg_preprocessor := ''pca''\<rparr>) =
     (Inl (SystemExit 0),
      [Print [PyStr ''{} - Preprocessing Method is not Supported!'', PyStr ''IPS-LOADER'']])
   \<and> (\<forall>p. ReadCsv p \<notin> set (snd (Loader_init example_world
                                   (example_args\<lparr>arg_preprocessor := ''pca''\<rparr>))))"
  using Loader_init_unsupported_preprocessor
    [of "example_args\<lparr>arg_preprocessor := ''pca''\<rparr>" example_world]
  by (simp add: example_args_def default_loader_args_def)


section \<open>Facts about the preprocessors\<close>

lemma bind_Inr_iff: "bind m f = Inr y \<longleftrightarrow> (\<exists>x. m = Inr x \<and> f x = Inr y)"
  by (cases m) (simp_all add: bind_def)

lemma sqrt_of_square: "0 \<le> a \<Longrightarrow> a * a = b \<Longrightarrow> sqrt b = a"
  by (metis real_sqrt_abs2 abs_of_nonneg)

lemma sqrt_values: "sqrt 400 = 20" "sqrt 100 = 10" "sqrt 25 = 5"
  by (rule sqrt_of_square; simp)+

lemma handle_zeros_nonzero: "handle_zeros_in_scale s \<noteq> 0"
  by (simp add: handle_zeros_in_scale_def)

lemma check_arrayD:
  "check_array X = Inr u \<Longrightarrow> rectangular X \<and> X \<noteq> [] \<and> 0 < n_cols X"
  by (auto simp: check_array_def n_rows_def split: if_splits)

lemma check_arrayI:
  "rectangular X \<Longrightarrow> X \<noteq> [] \<Longrightarrow> 0 < n_cols X \<Longrightarrow> check_array X = Inr ()"
  by (auto simp: check_array_def n_rows_def)

lemma rectangular_row: "rectangular X \<Longrightarrow> r \<in> set X \<Longrightarrow> length r = n_cols X"
  by (simp add: rectangular_def list_all_iff)

lemma length_columns_of: "length (columns_of X) = n_cols X"
  by (simp add: columns_of_def)

lemma rectangular_map:
  assumes "rectangular X" and "\<And>r. r \<in> set X \<Longrightarrow> length (f r) = length r"
  shows "rectangular (map f X) \<and> n_cols (map f X) = n_cols X"
  using assms by (cases X) (auto simp: rectangular_def n_cols_def list_all_iff)

lemma scale_then_unscale:
  "length (r :: real list) = length ps \<Longrightarrow> \<forall>p \<in> set ps. snd p \<noteq> 0 \<Longrightarrow>
   map (\<lambda>(x, m, s). x * s + m) (zip (map (\<lambda>(x, m, s). (x - m) / s) (zip r ps)) ps) = r"
  by (induction r ps rule: list_induct2) (auto simp: field_simps)

lemma unscale_then_scale:
  "length (r :: real list) = length ps \<Longrightarrow> \<forall>p \<in> set ps. snd p \<noteq> 0 \<Longrightarrow>
   map (\<lambda>(x, m, s). (x - m) / s) (zip (map (\<lambda>(x, m, s). x * s + m) (zip r ps)) ps) = r"
  by (induction r ps rule: list_induct2) (auto simp: field_simps)

lemma standard_round_trip:
  assumes "fit_transform (StandardScaler p) X = Inr (s', Y)"
  shows "inverse_transform s' Y = Inr X"
proof -
  from assms obtain u where ca: "check_array X = Inr u"
    by (auto simp: fit_transform_def split: sum.splits)
  define mu where "mu = map mean (columns_of X)"
  define sc where "sc = map (\<lambda>c. handle_zeros_in_scale (sqrt (variance c))) (columns_of X)"
  define ps where "ps = zip mu sc"
  have s': "s' = StandardScaler (Some (mu, sc))"
    using assms ca by (auto simp: fit_transform_def mu_def sc_def split: sum.splits)
  have len: "length mu = n_cols X" "length ps = n_cols X"
    by (simp_all add: mu_def sc_def ps_def length_columns_of)
  have nz: "\<forall>p \<in> set ps. snd p \<noteq> 0"
    by (auto simp: ps_def sc_def handle_zeros_nonzero dest!: set_zip_rightD)
  have rect: "rectangular X" "X \<noteq> []" "0 < n_cols X"
    using check_arrayD[OF ca] by auto
  have Y: "Y = map (\<lambda>r. map (\<lambda>(x, m, s). (x - m) / s) (zip r ps)) X"
    using assms ca len
    by (auto simp: fit_transform_def s' ps_def mu_def sc_def split: sum.splits if_splits)
  have rlen: "\<And>r. r \<in> set X \<Longrightarrow> length r = length ps"
    using rectangular_row[OF rect(1)] len by simp
  have shape: "rectangular Y \<and> n_cols Y = n_cols X"
    unfolding Y by (rule rectangular_map[OF rect(1)]) (simp add: rlen)
  then have caY: "check_array Y = Inr ()"
    using rect by (intro check_arrayI) (auto simp: Y)
  have bc: "broadcast (n_cols Y) (zip mu sc) = Inr ps"
    using shape len by (simp add: broadcast_def ps_def)
  have "map (\<lambda>r. map (\<lambda>(x, m, s). x * s + m) (zip r ps)) Y = X"
    unfolding Y using rlen nz by (simp add: scale_then_unscale map_idI)
  then show ?thesis
    using caY bc by (simp add: s' bind_def)
qed

lemma minmax_round_trip:
  assumes "fit_transform (MinMaxScaler p) X = Inr (s', Y)"
  shows "inverse_transform s' Y = Inr X"
proof -
  from assms obtain u where ca: "check_array X = Inr u"
    by (auto simp: fit_transform_def split: sum.splits)
  define sc where
    "sc = map (\<lambda>c. 1 / handle_zeros_in_scale (list_max c - list_min c)) (columns_of X)"
  define mn where "mn = map (\<lambda>(c, s). 0 - list_min c * s) (zip (columns_of X) sc)"
  define ps where "ps = zip mn sc"
  have s': "s' = MinMaxScaler (Some (mn, sc))"
    using assms ca by (auto simp: fit_transform_def mn_def sc_def Let_def split: sum.splits)
  have len: "length mn = n_cols X" "length ps = n_cols X"
    by (simp_all add: mn_def sc_def ps_def length_columns_of)
  have nz: "\<forall>p \<in> set ps. snd p \<noteq> 0"
    by (auto simp: ps_def sc_def handle_zeros_nonzero dest!: set_zip_rightD)
  have rect: "rectangular X" "X \<noteq> []" "0 < n_cols X"
    using check_arrayD[OF ca] by auto
  have Y: "Y = map (\<lambda>r. map (\<lambda>(x, m, s). x * s + m) (zip r ps)) X"
    using assms ca len
    by (auto simp: fit_transform_def s' ps_def mn_def sc_def Let_def split: sum.splits if_splits)
  have rlen: "\<And>r. r \<in> set X \<Longrightarrow> length r = length ps"
    using rectangular_row[OF rect(1)] len by simp
  have shape: "rectangular Y \<and> n_cols Y = n_cols X"
    unfolding Y by (rule rectangular_map[OF rect(1)]) (simp add: rlen)
  then have caY: "check_array Y = Inr ()"
    using rect by (intro check_arrayI) (auto simp: Y)
  have bc: "broadcast (n_cols Y) (zip mn sc) = Inr ps"
    using shape len by (simp add: broadcast_def ps_def)
  have "map (\<lambda>r. map (\<lambda>(x, m, s). (x - m) / s) (zip r ps)) Y = X"
    unfolding Y using rlen nz by (simp add: unscale_then_scale map_idI)
  then show ?thesis
    using caY bc by (simp add: s' bind_def)
qed

lemma fit_transform_succeeds:
  assumes "check_array X = Inr ()"
  shows "\<exists>s' Y. fit_transform s X = Inr (s', Y)"
  using assms
  by (cases s)
    (auto simp: fit_transform_def length_columns_of Let_def split: sum.splits option.splits)

lemma check_array_coords:
  assumes "XY \<noteq> []" and "\<forall>r \<in> set XY. length r = 2"
  shows "check_array XY = Inr ()"
  using assms
  by (cases XY) (auto simp: check_array_def rectangular_def n_cols_def n_rows_def list_all_iff)

section \<open>The round trip of the coordinate scaler\<close>

text \<open>
  C5, as stated, fails for vector normalization: the coordinate pairs \<open>(3, 4)\<close> and
  \<open>(6, 8)\<close> are both scaled to \<open>(3/5, 4/5)\<close>, so nothing recovers the coordinates from
  the scaled ones, and the \<open>Normalizer\<close> has no \<^verbatim>\<open>inverse_transform\<close>.
\<close>

theorem normalization_round_trip_counterexample:
  "select_preprocessor ''normalization'' = Some (Normalizer, Normalizer)
   \<and> fit_transform Normalizer [[3, 4]] = Inr (Normalizer, [[3 / 5, 4 / 5]])
   \<and> fit_transform Normalizer [[6, 8]] = Inr (Normalizer, [[3 / 5, 4 / 5]])
   \<and> inverse_transform Normalizer [[3 / 5, 4 / 5]] \<noteq> Inr [[3, 4]]
   \<and> inverse_transform Normalizer [[3 / 5, 4 / 5]] \<noteq> Inr [[6, 8]]"
  by (simp add: select_preprocessor_def fit_transform_def check_array_def rectangular_def
      n_cols_def n_rows_def l2_norm_def handle_zeros_in_scale_def sqrt_values)

text \<open>
  C5, amended.  For standardization and for min-max scaling, and for every coordinate
  matrix with at least one row, fitting the Loader's coordinate scaler on the matrix and
  transforming it succeeds, and the fitted scaler's inverse transform gives the matrix
  back (exactly, the arithmetic being that of the reals).
\<close>

theorem coords_scaler_round_trip:
  assumes "p = ''standard_scaler'' \<or> p = ''min_max_scaler''"
    and "select_preprocessor p = Some (rs, cs)"
    and "XY \<noteq> []" and "\<forall>r \<in> set XY. length r = 2"
  shows "\<exists>s' Y. fit_transform cs XY = Inr (s', Y) \<and> inverse_transform s' Y = Inr XY"
proof -
  obtain s' Y where ft: "fit_transform cs XY = Inr (s', Y)"
    using fit_transform_succeeds[OF check_array_coords[OF assms(3,4)]] by blast
  have "cs = StandardScaler None \<or> cs = MinMaxScaler None"
    using assms(1,2) by (auto simp: select_preprocessor_def)
  then have "inverse_transform s' Y = Inr XY"
    using ft standard_round_trip minmax_round_trip by blast
  with ft show ?thesis by blast
qed

theorem coords_scaler_round_trip_witness:
  "select_preprocessor ''min_max_scaler'' = Some (MinMaxScaler None, MinMaxScaler None)
   \<and> (\<exists>s' Y. fit_transform (MinMaxScaler None) [[0, 0], [2, 4]] = Inr (s', Y)
           \<and> inverse_transform s' Y = Inr [[0, 0], [2, 4]])"
proof -
  have a: "select_preprocessor ''min_max_scaler'' = Some (MinMaxScaler None, MinMaxScaler None)"
    by (simp add: select_preprocessor_def)
  have b: "''min_max_scaler'' = ''standard_scaler'' \<or> ''min_max_scaler'' = ''min_max_scaler''"
    by simp
  have c: "[[0, 0], [2, 4 :: real]] \<noteq> []" and d: "\<forall>r \<in> set [[0, 0], [2, 4 :: real]]. length r = 2"
    by simp_all
  show ?thesis
    using a coords_scaler_round_trip[OF b a c d] by blast
qed


section \<open>Facts about frames and arrays\<close>

lemma traverse_set:
  "traverse f xs = Inr ys \<Longrightarrow> y \<in> set ys \<Longrightarrow> \<exists>x \<in> set xs. f x = Inr y"
  by (induction xs arbitrary: ys) (auto simp: bind_Inr_iff)

lemma traverse_length: "traverse f xs = Inr ys \<Longrightarrow> length ys = length xs"
  by (induction xs arbitrary: ys) (auto simp: bind_Inr_iff)

lemma asarray_cols_shape:
  assumes "asarray_cols df cs = Inr M"
  shows "length M = length (df_rows df)" and "\<forall>r \<in> set M. length r = length cs"
proof -
  from assms obtain js where
    js: "traverse (\<lambda>c. case col_pos (df_columns df) c of
                         None \<Rightarrow> Inl (KeyError c) | Some j \<Rightarrow> Inr (c, j)) cs = Inr js"
    and M: "traverse (\<lambda>(i, r). traverse (\<lambda>(c, j). to_float c (r ! j)) js) (df_rows df) = Inr M"
    by (auto simp: asarray_cols_def bind_Inr_iff)
  show "length M = length (df_rows df)"
    using M by (rule traverse_length)
  have ljs: "length js = length cs"
    using js by (rule traverse_length)
  have "\<forall>r \<in> set M. length r = length js"
  proof
    fix r assume "r \<in> set M"
    then obtain x where
      tr: "(case x of (i, r) \<Rightarrow> traverse (\<lambda>(c, j). to_float c (r ! j)) js) = Inr r"
      using traverse_set[OF M, of r] by auto
    show "length r = length js"
      using tr by (cases x) (auto dest: traverse_length)
  qed
  then show "\<forall>r \<in> set M. length r = length cs"
    using ljs by simp
qed

lemma concat_chunks:
  "concat (map (\<lambda>i. take m (drop (i * m) xs)) [0..<n]) = take (n * m) xs"
proof (induction n)
  case 0
  show ?case by simp
next
  case (Suc n)
  have "take (Suc n * m) xs = take (n * m + m) xs"
    by (simp add: add.commute)
  also have "\<dots> = take (n * m) xs @ take m (drop (n * m) xs)"
    by (rule take_add)
  finally show ?case
    using Suc by simp
qed

lemma reshape_shape:
  assumes "reshape Y (n, m) = Inr Z"
  shows "length Z = n" and "\<forall>r \<in> set Z. length r = m" and "concat Z = concat Y"
proof -
  from assms have len: "length (concat Y) = n * m"
    and Z: "Z = map (\<lambda>i. take m (drop (i * m) (concat Y))) [0..<n]"
    by (auto simp: reshape_def split: if_splits)
  show "length Z = n" by (simp add: Z)
  show "concat Z = concat Y"
    unfolding Z concat_chunks using len by simp
  show "\<forall>r \<in> set Z. length r = m"
  proof
    fix r assume "r \<in> set Z"
    then obtain i where i: "i < n" and r: "r = take m (drop (i * m) (concat Y))"
      by (auto simp: Z)
    have "i * m + m \<le> n * m"
      using i by (metis Suc_leI mult_Suc mult_le_mono1 add.commute)
    then show "length r = m"
      using len by (simp add: r)
  qed
qed

lemma same_shape_same_entries:
  "map length Z = map length X \<Longrightarrow> concat Z = map f (concat X) \<Longrightarrow> Z = map (map f) X"
proof (induction Z arbitrary: X)
  case Nil
  then show ?case by simp
next
  case (Cons z Z)
  then obtain x X' where X: "X = x # X'" "length z = length x" "map length Z = map length X'"
    by (cases X) auto
  from Cons.prems(2) have "z @ concat Z = map f x @ map f (concat X')"
    by (simp add: X)
  then have "z = map f x \<and> concat Z = map f (concat X')"
    using X(2) by simp
  then show ?case
    using Cons.IH[OF X(3)] X by simp
qed

lemma column_entrywise:
  assumes "fit_transform s (reshape_column X) = Inr (s', Y)"
  shows "Y = map (\<lambda>x. [entry_scale s' x]) (concat X)"
    and "param_count s' = (if s' = Normalizer then 0 else 1)"
proof -
  from assms obtain u where ca: "check_array (reshape_column X) = Inr u"
    by (cases s) (auto simp: fit_transform_def split: sum.splits)
  then have "reshape_column X \<noteq> []"
    using check_arrayD by blast
  then have nc: "n_cols (reshape_column X) = 1"
    by (cases "concat X") (auto simp: n_cols_def reshape_column_def)
  show "Y = map (\<lambda>x. [entry_scale s' x]) (concat X)"
  proof (cases s)
    case (StandardScaler p)
    define mu where "mu = map mean (columns_of (reshape_column X))"
    define sc where
      "sc = map (\<lambda>c. handle_zeros_in_scale (sqrt (variance c))) (columns_of (reshape_column X))"
    have l: "length mu = Suc 0" "length sc = Suc 0"
      by (simp_all add: mu_def sc_def length_columns_of nc)
    obtain m0 s0 where m1: "mu = [m0]" and s1: "sc = [s0]"
      using l by (cases mu; cases sc) auto
    have s': "s' = StandardScaler (Some (mu, sc))"
      and Y: "Y = map (\<lambda>r. map (\<lambda>(x, m, s). (x - m) / s) (zip r (zip mu sc))) (reshape_column X)"
      using assms ca nc l unfolding StandardScaler
      by (auto simp: fit_transform_def mu_def sc_def split: sum.splits if_splits)
    have "Y = map (\<lambda>x. [(x - hd mu) / hd sc]) (concat X)"
      unfolding Y by (simp add: m1 s1 reshape_column_def)
    then show ?thesis
      by (simp add: s')
  next
    case (MinMaxScaler p)
    define sc where
      "sc = map (\<lambda>c. 1 / handle_zeros_in_scale (list_max c - list_min c))
              (columns_of (reshape_column X))"
    define mn where
      "mn = map (\<lambda>(c, s). 0 - list_min c * s) (zip (columns_of (reshape_column X)) sc)"
    have l: "length mn = Suc 0" "length sc = Suc 0"
      by (simp_all add: mn_def sc_def length_columns_of nc)
    obtain m0 s0 where m1: "mn = [m0]" and s1: "sc = [s0]"
      using l by (cases mn; cases sc) auto
    have s': "s' = MinMaxScaler (Some (mn, sc))"
      and Y: "Y = map (\<lambda>r. map (\<lambda>(x, m, s). x * s + m) (zip r (zip mn sc))) (reshape_column X)"
      using assms ca nc l unfolding MinMaxScaler
      by (auto simp: fit_transform_def mn_def sc_def Let_def split: sum.splits if_splits)
    have "Y = map (\<lambda>x. [x * hd sc + hd mn]) (concat X)"
      unfolding Y by (simp add: m1 s1 reshape_column_def)
    then show ?thesis
      by (simp add: s')
  next
    case Normalizer
    then show ?thesis
      using assms ca by (auto simp: fit_transform_def reshape_column_def split: sum.splits)
  qed
  show "param_count s' = (if s' = Normalizer then 0 else 1)"
    using assms nc
    by (cases s)
      (auto simp: fit_transform_def length_columns_of Let_def split: sum.splits if_splits)
qed

lemma scale_flattened_entrywise:
  assumes "scale_flattened h a X (n, m) = Inr (h', Z)"
    and "length X = n" and "\<forall>r \<in> set X. length r = m"
  shows "\<exists>s' Y. fit_transform (h a) (reshape_column X) = Inr (s', Y) \<and> h' = h(a := s')
           \<and> concat Z = concat Y
           \<and> Z = map (map (entry_scale s')) X
           \<and> param_count s' = (if s' = Normalizer then 0 else 1)"
proof -
  from assms(1) obtain s' Y where ft: "fit_transform (h a) (reshape_column X) = Inr (s', Y)"
    and h': "h' = h(a := s')" and rs: "reshape Y (n, m) = Inr Z"
    by (auto simp: scale_flattened_def fit_transform_at_def bind_Inr_iff)
  note Y = column_entrywise(1)[OF ft]
  have cZ: "concat Z = concat Y"
    using reshape_shape(3)[OF rs] .
  have "concat Y = map (entry_scale s') (concat X)"
    unfolding Y by (simp add: concat_map_singleton)
  then have entries: "concat Z = map (entry_scale s') (concat X)"
    using cZ by simp
  have "map length Z = map length X"
    using reshape_shape(1,2)[OF rs] assms(2,3) by (auto simp: list_eq_iff_nth_eq)
  then have "Z = map (map (entry_scale s')) X"
    using entries by (rule same_shape_same_entries)
  then show ?thesis
    using ft h' cZ column_entrywise(2)[OF ft] by blast
qed

lemma process_data_Inr:
  assumes "process_data self = Inr self'"
  obtains filled where "fill_missing self = Inr filled" and "scale_and_bundle filled = Inr self'"
  using assms by (auto simp: process_data_def bind_Inr_iff)

lemma fill_missing_keeps:
  assumes "fill_missing self = Inr filled"
  shows "rssi_scaler filled = rssi_scaler self" and "heap filled = heap self"
  using assms by (auto simp: fill_missing_def split: option.splits)

lemma scale_rss_Some:
  assumes "scale_rss self R1 shp1 R2 shp2 = Inr res" and "rssi_scaler self = Some a"
  shows "\<exists>h1 Z1 h2 Z2. scale_flattened (heap self) a R1 shp1 = Inr (h1, Z1)
           \<and> scale_flattened h1 a R2 shp2 = Inr (h2, Z2) \<and> res = (h2, Z1, Z2)"
  using assms by (auto simp: scale_rss_def bind_Inr_iff)

lemma scale_and_bundle_Inr:
  assumes "scale_and_bundle self = Inr self'"
  shows "\<exists>nw trdf tedf R1 R2 res tc tec cres.
      no_waps self = Some nw \<and> loader.training_df self = Some trdf
    \<and> loader.testing_df self = Some tedf
    \<and> asarray_cols trdf nw = Inr R1 \<and> asarray_cols tedf nw = Inr R2
    \<and> scale_rss self R1 (length (df_rows trdf), length nw)
         R2 (length (df_rows tedf), length nw) = Inr res
    \<and> process_coords trdf = Inr tc \<and> process_coords tedf = Inr tec
    \<and> scale_coords self (fst res) tc tec = Inr cres
    \<and> heap self' = fst cres
    \<and> (\<exists>td. loader.training_data self' = Some td \<and> TrainData.rss td = R1
           \<and> TrainData.rss_scaled td = fst (snd res))
    \<and> (\<exists>ted. loader.testing_data self' = Some ted \<and> TestData.rss ted = R2
           \<and> TestData.rss_scaled ted = snd (snd res))"
  using assms
  by (auto simp: scale_and_bundle_def bind_Inr_iff split: option.splits)


section \<open>Scaling of the RSS matrices\<close>

text \<open>
  C6.  When \<^verbatim>\<open>process_data\<close> returns, for the training split and then for the testing
  split the RSS scaler was fitted on the raw matrix laid out as one column (the testing
  fit starting from the object the training fit left); the fitted object holds one
  parameter pair, none for the stateless \<open>Normalizer\<close>, never one per column; every
  entry of the scaled matrix is the image of the raw entry at the same place under one
  map, that of the fitted object; so the scaled matrix has the shape of the raw one.
\<close>

theorem process_data_rss_scaling:
  assumes "process_data self = Inr self'" and "rssi_scaler self = Some a"
  shows "\<exists>td ted s1 Y1 s2 Y2.
       loader.training_data self' = Some td \<and> loader.testing_data self' = Some ted
     \<and> fit_transform (heap self a) (reshape_column (TrainData.rss td)) = Inr (s1, Y1)
     \<and> concat (TrainData.rss_scaled td) = concat Y1
     \<and> TrainData.rss_scaled td = map (map (entry_scale s1)) (TrainData.rss td)
     \<and> map length (TrainData.rss_scaled td) = map length (TrainData.rss td)
     \<and> param_count s1 = (if s1 = Normalizer then 0 else 1)
     \<and> fit_transform s1 (reshape_column (TestData.rss ted)) = Inr (s2, Y2)
     \<and> concat (TestData.rss_scaled ted) = concat Y2
     \<and> TestData.rss_scaled ted = map (map (entry_scale s2)) (TestData.rss ted)
     \<and> map length (TestData.rss_scaled ted) = map length (TestData.rss ted)
     \<and> param_count s2 = (if s2 = Normalizer then 0 else 1)"
proof -
  from assms(1) obtain filled where
    fm: "fill_missing self = Inr filled" and sb: "scale_and_bundle filled = Inr self'"
    by (rule process_data_Inr)
  have a: "rssi_scaler filled = Some a" and hp: "heap filled = heap self"
    using fill_missing_keeps[OF fm] assms(2) by simp_all
  from scale_and_bundle_Inr[OF sb] obtain nw trdf tedf R1 R2 res td ted where
    R1: "asarray_cols trdf nw = Inr R1" and R2: "asarray_cols tedf nw = Inr R2"
    and sr: "scale_rss filled R1 (length (df_rows trdf), length nw)
               R2 (length (df_rows tedf), length nw) = Inr res"
    and td: "loader.training_data self' = Some td" "TrainData.rss td = R1"
      "TrainData.rss_scaled td = fst (snd res)"
    and ted: "loader.testing_data self' = Some ted" "TestData.rss ted = R2"
      "TestData.rss_scaled ted = snd (snd res)"
    by blast
  from scale_rss_Some[OF sr a] hp obtain h1 Z1 h2 Z2 where
    sf1: "scale_flattened (heap self) a R1 (length (df_rows trdf), length nw) = Inr (h1, Z1)"
    and sf2: "scale_flattened h1 a R2 (length (df_rows tedf), length nw) = Inr (h2, Z2)"
    and res: "res = (h2, Z1, Z2)"
    by auto
  from scale_flattened_entrywise[OF sf1 asarray_cols_shape[OF R1]] obtain s1 Y1 where
    f1: "fit_transform (heap self a) (reshape_column R1) = Inr (s1, Y1)"
    and h1: "h1 = (heap self)(a := s1)" and c1: "concat Z1 = concat Y1"
    and e1: "Z1 = map (map (entry_scale s1)) R1"
    and p1: "param_count s1 = (if s1 = Normalizer then 0 else 1)"
    by blast
  have "h1 a = s1" by (simp add: h1)
  with scale_flattened_entrywise[OF sf2 asarray_cols_shape[OF R2]] obtain s2 Y2 where
    f2: "fit_transform s1 (reshape_column R2) = Inr (s2, Y2)"
    and c2: "concat Z2 = concat Y2"
    and e2: "Z2 = map (map (entry_scale s2)) R2"
    and p2: "param_count s2 = (if s2 = Normalizer then 0 else 1)"
    by auto
  have l1: "map length Z1 = map length R1" and l2: "map length Z2 = map length R2"
    by (simp_all add: e1 e2)
  have Z: "TrainData.rss_scaled td = Z1" "TestData.rss_scaled ted = Z2"
    by (simp_all add: td ted res)
  show ?thesis
    unfolding td(1) ted(1)
    using f1 c1 e1 l1 p1 f2 c2 e2 l2 p2
    unfolding td(2)[symmetric] ted(2)[symmetric] Z[symmetric]
    by blast
qed

section \<open>The fill of the missing readings\<close>

lemma fillna_cols_filled:
  assumes "wf_df df"
  shows "filled_from nw v df (fillna_cols df nw v)"
proof -
  have len: "length (snd (df_rows df ! k)) = length (df_columns df)"
    if "k < length (df_rows df)" for k
    using assms that by (cases "df_rows df ! k") (auto simp: wf_df_def list_all_length)
  have ids: "map fst (df_rows (fillna_cols df nw v)) = map fst (df_rows df)"
    by (auto simp: fillna_cols_def split: prod.splits)
  have cell: "snd (df_rows (fillna_cols df nw v) ! k) ! j =
      (if df_columns df ! j \<in> set nw then fillna v (snd (df_rows df ! k) ! j)
       else snd (df_rows df ! k) ! j)"
    if "k < length (df_rows df)" "j < length (df_columns df)" for k j
  proof -
    obtain i r where kr: "df_rows df ! k = (i, r)"
      by (cases "df_rows df ! k")
    have "length r = length (df_columns df)"
      using len[OF that(1)] kr by simp
    then show ?thesis
      using that kr by (simp add: fillna_cols_def)
  qed
  have cols: "df_columns (fillna_cols df nw v) = df_columns df"
    by (simp add: fillna_cols_def)
  show ?thesis
    unfolding filled_from_def Let_def cols
    using ids cell by (simp add: fillna_def split: option.splits)
qed

text \<open>
  C10.  The fill step of \<^verbatim>\<open>process_data\<close>, on well-formed frames, replaces in both
  splits every missing cell of an access-point column by the configured sentinel, leaves
  no cell of these columns missing, and changes no other cell; the scaling that follows
  (\<^verbatim>\<open>process_data\<close> is the fill followed by the rest) starts from these frames.
\<close>

theorem fill_missing_fills:
  assumes "fill_missing self = Inr self'"
    and "loader.training_df self = Some trdf" and "loader.testing_df self = Some tedf"
    and "wf_df trdf" and "wf_df tedf"
  shows "\<exists>nw trdf' tedf'. no_waps self = Some nw
     \<and> loader.training_df self' = Some trdf' \<and> loader.testing_df self' = Some tedf'
     \<and> filled_from nw (no_val_rss self) trdf trdf'
     \<and> filled_from nw (no_val_rss self) tedf tedf'
     \<and> process_data self = scale_and_bundle self'"
  using assms
  by (auto simp: fill_missing_def fillna_cols_filled process_data_def bind_def
      split: option.splits)

section \<open>Filtering and splitting\<close>

lemma read_csv_distinct: "distinct (map fst (df_rows (read_csv t)))"
  by (simp add: read_csv_def)

lemma filter_eq_props:
  assumes "filter_eq df c v = Inr df'"
  shows "df_columns df' = df_columns df"
    and "set (df_rows df') \<subseteq> set (df_rows df)"
    and "distinct (map fst (df_rows df)) \<Longrightarrow> distinct (map fst (df_rows df'))"
    and "\<exists>fl. getitem df' c = Inr fl \<and> (\<forall>x \<in> set fl. x = Some v)"
  using assms
  by (auto simp: filter_eq_def getitem_def distinct_map_filter split: option.splits)

lemma getitem_subset:
  assumes "getitem df c = Inr fl" and "\<forall>x \<in> set fl. x = Some v"
    and "df_columns df' = df_columns df" and "set (df_rows df') \<subseteq> set (df_rows df)"
  shows "\<exists>fl'. getitem df' c = Inr fl' \<and> (\<forall>x \<in> set fl'. x = Some v)"
  using assms by (fastforce simp: getitem_def split: option.splits)

lemma labels_disjoint: "fst ` A \<inter> fst ` B = {} \<Longrightarrow> A \<inter> B = {}"
  by auto

text \<open>
  C7.  When \<^verbatim>\<open>load_data\<close> returns, with a split and a sampling that keep their
  contracts, the \<open>floor\<close> column of the training frame and that of the testing frame
  hold the configured floor in every row, and no row label is in both frames.
\<close>

theorem load_data_floor_and_disjoint:
  assumes "tts_sound W" and "sample_sound W"
    and "fst (load_data W self) = Inr self'"
  shows "\<exists>trdf tedf ftr fte.
      loader.training_df self' = Some trdf \<and> loader.testing_df self' = Some tedf
    \<and> getitem trdf ''floor'' = Inr ftr \<and> (\<forall>x \<in> set ftr. x = Some (floor_l self))
    \<and> getitem tedf ''floor'' = Inr fte \<and> (\<forall>x \<in> set fte. x = Some (floor_l self))
    \<and> fst ` set (df_rows trdf) \<inter> fst ` set (df_rows tedf) = {}
    \<and> set (df_rows trdf) \<inter> set (df_rows tedf) = {}"
proof -
  from assms(3) obtain t data tr te where
    t: "files W (data_fname self) = Some t"
    and data: "filter_eq (read_csv t) ''floor'' (floor_l self) = Inr data"
    and split: "tts W data (test_size self) = Inr (tr, te)"
    by (auto simp: load_data_def bind_Inr_iff split: option.splits)
  have dd: "distinct (map fst (df_rows data))"
    using filter_eq_props(3)[OF data] read_csv_distinct by blast
  from filter_eq_props(4)[OF data] obtain fl where
    fl: "getitem data ''floor'' = Inr fl" "\<forall>x \<in> set fl. x = Some (floor_l self)"
    by blast
  have sp: "df_columns tr = df_columns data" "df_columns te = df_columns data"
    "set (df_rows tr) \<subseteq> set (df_rows data)" "set (df_rows te) \<subseteq> set (df_rows data)"
    "fst ` set (df_rows tr) \<inter> fst ` set (df_rows te) = {}"
    using assms(1) split dd unfolding tts_sound_def by blast+
  show ?thesis
  proof (cases "frac_l self < 1")
    case False
    then have res: "loader.training_df self' = Some tr" "loader.testing_df self' = Some te"
      using assms(3) t data split by (auto simp: load_data_def bind_def Let_def)
    from getitem_subset[OF fl sp(1,3)] obtain ftr where
      ftr: "getitem tr ''floor'' = Inr ftr" "\<forall>x \<in> set ftr. x = Some (floor_l self)"
      by blast
    from getitem_subset[OF fl sp(2,4)] obtain fte where
      fte: "getitem te ''floor'' = Inr fte" "\<forall>x \<in> set fte. x = Some (floor_l self)"
      by blast
    note dj = sp(5)
    have sd: "set (df_rows tr) \<inter> set (df_rows te) = {}"
      using dj by (rule labels_disjoint)
    show ?thesis
      by (rule exI[of _ tr], rule exI[of _ te], rule exI[of _ ftr], rule exI[of _ fte])
        (intro conjI; fact)
  next
    case True
    then obtain tr' te' where
      s1: "sample W tr (frac_l self) = Inr tr'" and s2: "sample W te (frac_l self) = Inr te'"
      and res: "loader.training_df self' = Some tr'" "loader.testing_df self' = Some te'"
      using assms(3) t data split
      by (auto simp: load_data_def bind_def Let_def split: sum.splits)
    have k1: "df_columns tr' = df_columns tr \<and> set (df_rows tr') \<subseteq> set (df_rows tr)"
      using assms(2) s1 unfolding sample_sound_def by blast
    have k2: "df_columns te' = df_columns te \<and> set (df_rows te') \<subseteq> set (df_rows te)"
      using assms(2) s2 unfolding sample_sound_def by blast
    have c1: "df_columns tr' = df_columns data" "set (df_rows tr') \<subseteq> set (df_rows data)"
      "set (df_rows tr') \<subseteq> set (df_rows tr)"
      using k1 sp(1,3) by auto
    have c2: "df_columns te' = df_columns data" "set (df_rows te') \<subseteq> set (df_rows data)"
      "set (df_rows te') \<subseteq> set (df_rows te)"
      using k2 sp(2,4) by auto
    have dj: "fst ` set (df_rows tr') \<inter> fst ` set (df_rows te') = {}"
      using sp(5) c1(3) c2(3) by blast
    from getitem_subset[OF fl c1(1,2)] obtain ftr where
      ftr: "getitem tr' ''floor'' = Inr ftr" "\<forall>x \<in> set ftr. x = Some (floor_l self)"
      by blast
    from getitem_subset[OF fl c2(1,2)] obtain fte where
      fte: "getitem te' ''floor'' = Inr fte" "\<forall>x \<in> set fte. x = Some (floor_l self)"
      by blast
    have sd: "set (df_rows tr') \<inter> set (df_rows te') = {}"
      using dj by (rule labels_disjoint)
    show ?thesis
      by (rule exI[of _ tr'], rule exI[of _ te'], rule exI[of _ ftr], rule exI[of _ fte])
        (intro conjI; fact)
  qed
qed


end
